theory Spec2Isabelle
  imports Main "HOL-Library.AList"
begin

section \<open>Python values shared by the whole development\<close>

text \<open>
  Exceptions of the Python source are values: every \<open>raise\<close>, every failing
  \<open>assert\<close> and every out-of-range index of the code is a branch that returns
  \<open>Inl\<close> of the exception class.
\<close>

datatype error =
    NotImplementedError
  | AssertionError
  | RuntimeError
  | ValueError
  | IndexError
  | KeyError
  | AttributeError
  | TypeError
  | UnboundLocalError

definition ebind :: "error + 'a \<Rightarrow> ('a \<Rightarrow> error + 'b) \<Rightarrow> error + 'b" where
  "ebind m f = (case m of Inl e \<Rightarrow> Inl e | Inr x \<Rightarrow> f x)"

text \<open>\<open>xs[i]\<close> for a non-negative index: Python raises \<open>IndexError\<close> out of range.\<close>

definition item_at :: "'a list \<Rightarrow> nat \<Rightarrow> error + 'a" where
  "item_at xs i = (if i < length xs then Inr (xs ! i) else Inl IndexError)"

text \<open>\<open>str.lower()\<close> and \<open>str.upper()\<close> on the ASCII letters.\<close>

definition lower_char :: "char \<Rightarrow> char" where
  "lower_char c =
     (let n = (of_char c :: nat) in if 65 \<le> n \<and> n \<le> 90 then char_of (n + 32) else c)"

definition lower :: "string \<Rightarrow> string" where
  "lower s = map lower_char s"

definition upper_char :: "char \<Rightarrow> char" where
  "upper_char c =
     (let n = (of_char c :: nat) in if 97 \<le> n \<and> n \<le> 122 then char_of (n - 32) else c)"

definition upper :: "string \<Rightarrow> string" where
  "upper s = map upper_char s"

section \<open>Expression algebra and IR nodes\<close>

text \<open>
  Python is dynamically typed: a handler of the front end returns an expression, an IR
  node, a tuple of such, a string or \<open>None\<close>, and passes what it got from a child on
  without looking at it. One datatype therefore holds every value the lowering
  handles. A field is a \<open>val\<close> where the source stores whatever a child returned, and
  a \<open>val list\<close> where the source builds the tuple itself.

  \<open>PyInt\<close> is a bare Python integer standing as an operand: \<open>create_operation\<close>
  writes the factor of a negated term as the number \<open>-1\<close>, not as a literal node.
  The source annotation of expression nodes is left out (no function below reads
  it); IR nodes keep their label and source.
\<close>

datatype source = Source "int \<times> int" string

datatype val =
    VNone
  | VStr string
  | VTuple "val list"
  | VList "val list"
  | PyInt int
  | Variable string val
  | IntLiteral int val
  | FloatLiteral string val
  | RangeIndex "val list"
  | Sum "val list"
  | Product "val list"
  | Quotient val val
  | Power val val
  | Comparison val string val
  | LogicalAnd "val list"
  | LogicalOr "val list"
  | LogicalNot val
  | StringConcat "val list"
  | InlineCall val val "val list"
  | ParenthesisedAdd "val list"
  | ParenthesisedMul "val list"
  | ParenthesisedPow val val
  | Assignment val val bool "nat option" "source option"
  | Intrinsic string "nat option" "source option"
  | Conditional val "val list" "val list" bool bool "nat option" "source option" "string option"
  | MultiConditional val "val list" "val list" val "nat option" "string option" "source option"
  | Associate "val list" "val list" "nat option" "source option"
  | Interface val "val list" "nat option" "source option"
  | Import string val "source option" "nat option"

text \<open>Truth value of a Python object in a condition (\<open>if dimensions:\<close>).\<close>

fun truthy :: "val \<Rightarrow> bool" where
  "truthy VNone = False"
| "truthy (VStr s) = (s \<noteq> [])"
| "truthy (VTuple xs) = (xs \<noteq> [])"
| "truthy (VList xs) = (xs \<noteq> [])"
| "truthy (PyInt n) = (n \<noteq> 0)"
| "truthy v = True"

text \<open>
  \<open>loki.tools.as_tuple\<close> applied to one value; the function is not among the
  sources at hand and is written here by what the front end relies on: \<open>None\<close>
  becomes the empty tuple, a tuple or list its items, anything else a 1-tuple.
\<close>

fun as_tuple :: "val \<Rightarrow> val list" where
  "as_tuple VNone = []"
| "as_tuple (VTuple xs) = xs"
| "as_tuple (VList xs) = xs"
| "as_tuple v = [v]"

subsection \<open>\<open>FParser2IR.create_operation\<close>\<close>

definition create_operation :: "string \<Rightarrow> val list \<Rightarrow> error + val" where
  "create_operation op exprs =
    (if op = ''*'' then Inr (Product exprs)
     else if op = ''/'' then
       ebind (item_at exprs 0) (\<lambda>n. ebind (item_at exprs 1) (\<lambda>d. Inr (Quotient n d)))
     else if op = ''+'' then Inr (Sum exprs)
     else if op = ''-'' then
       (if length exprs > 1 then
          ebind (item_at exprs 0) (\<lambda>a. ebind (item_at exprs 1) (\<lambda>b.
            Inr (Sum [a, Product [PyInt (- 1), b]])))
        else ebind (item_at exprs 0) (\<lambda>x. Inr (Product [PyInt (- 1), x])))
     else if op = ''**'' then
       ebind (item_at exprs 0) (\<lambda>b. ebind (item_at exprs 1) (\<lambda>e. Inr (Power b e)))
     else if lower op = ''.and.'' then Inr (LogicalAnd exprs)
     else if lower op = ''.or.'' then Inr (LogicalOr exprs)
     else if lower op \<in> {''=='', ''.eq.''} then
       ebind (item_at exprs 0) (\<lambda>l. ebind (item_at exprs 1) (\<lambda>r. Inr (Comparison l ''=='' r)))
     else if lower op \<in> {''/='', ''.ne.''} then
       ebind (item_at exprs 0) (\<lambda>l. ebind (item_at exprs 1) (\<lambda>r. Inr (Comparison l ''!='' r)))
     else if lower op \<in> {''>'', ''.gt.''} then
       ebind (item_at exprs 0) (\<lambda>l. ebind (item_at exprs 1) (\<lambda>r. Inr (Comparison l ''>'' r)))
     else if lower op \<in> {''<'', ''.lt.''} then
       ebind (item_at exprs 0) (\<lambda>l. ebind (item_at exprs 1) (\<lambda>r. Inr (Comparison l ''<'' r)))
     else if lower op \<in> {''>='', ''.ge.''} then
       ebind (item_at exprs 0) (\<lambda>l. ebind (item_at exprs 1) (\<lambda>r. Inr (Comparison l ''>='' r)))
     else if lower op \<in> {''<='', ''.le.''} then
       ebind (item_at exprs 0) (\<lambda>l. ebind (item_at exprs 1) (\<lambda>r. Inr (Comparison l ''<='' r)))
     else if lower op = ''.not.'' then
       ebind (item_at exprs 0) (\<lambda>x. Inr (LogicalNot x))
     else if lower op = ''.eqv.'' then
       Inr (LogicalOr [LogicalAnd exprs, LogicalNot (LogicalOr exprs)])
     else if lower op = ''.neqv.'' then
       Inr (LogicalAnd [LogicalNot (LogicalAnd exprs), LogicalOr exprs])
     else if op = ''//'' then Inr (StringConcat exprs)
     else Inl RuntimeError)"

section \<open>Scope and symbol table\<close>

datatype dtype =
    LOGICAL
  | INTEGER
  | REAL
  | CHARACTER
  | COMPLEX
  | DEFERRED
  | DerivedType string
  | ProcedureType string bool

text \<open>
  \<open>SymbolAttributes\<close>: the data type and the attributes the code below reads or
  writes. An attribute that was never set reads as \<open>None\<close> in the source;
  \<open>dfevar\<close> is only ever tested for truth, so it is a \<open>bool\<close>. The attribute
  \<open>module\<close> holds the name of the module a symbol was imported from.
\<close>

record symbol_attributes =
  dtype :: dtype
  kind :: val
  shape :: val
  intent :: "string option"
  imported :: "bool option"
  module :: "string option"
  dfevar :: bool

definition SymbolAttributes :: "dtype \<Rightarrow> symbol_attributes" where
  "SymbolAttributes t =
     \<lparr>dtype = t, kind = VNone, shape = VNone, intent = None, imported = None,
      module = None, dfevar = False\<rparr>"

type_synonym symbol_table = "(string \<times> symbol_attributes) list"

text \<open>
  Modelled from the spec: the classes \<open>Scope\<close> and \<open>SymbolTable\<close> of
  \<open>loki.types\<close> are not among the sources at hand. A scope is a local mapping from
  case-insensitive names to attributes plus a reference to its parent; \<open>lookup\<close>
  walks the chain outward, the nearest definition wins, and it never raises;
  \<open>define_symbol\<close> (the \<open>define\<close> of the spec) inserts or overwrites in the local table only. Reading a key of the
  local table that is absent raises \<open>KeyError\<close>, as a Python mapping does.
\<close>

datatype scope = Scope symbol_table "scope option"

fun lookup :: "scope \<Rightarrow> string \<Rightarrow> symbol_attributes option" where
  "lookup (Scope t p) n =
     (case map_of t (lower n) of
        Some a \<Rightarrow> Some a
      | None \<Rightarrow> (case p of None \<Rightarrow> None | Some q \<Rightarrow> lookup q n))"

fun define_symbol :: "scope \<Rightarrow> string \<Rightarrow> symbol_attributes \<Rightarrow> scope" where
  "define_symbol (Scope t p) n a = Scope (AList.update (lower n) a t) p"

definition table_get :: "symbol_table \<Rightarrow> string \<Rightarrow> error + symbol_attributes" where
  "table_get t n = (case map_of t (lower n) of None \<Rightarrow> Inl KeyError | Some a \<Rightarrow> Inr a)"

text \<open>A module of the definitions table: its name and the symbols it exports.\<close>

record module_def =
  mod_name :: string
  mod_symbols :: symbol_table

section \<open>The lowering engine\<close>

subsection \<open>Parse tree, configuration and state\<close>

text \<open>
  A node of the parser's tree has a class (its name is the key of the dispatch), the
  base class it derives from (\<open>BlockBase\<close> or plain \<open>Base\<close>), its text
  (\<open>tostr()\<close>), the reader item it was read from (line span, statement label and
  construct name; \<open>None\<close> for nodes inside a statement) and its children, each a
  node, a string or \<open>None\<close>.
\<close>

record reader_item =
  item_span :: "int \<times> int"
  item_label :: "nat option"
  item_name :: "string option"

datatype pt = Node string bool string "reader_item option" "child list"
and child = CNone | CStr string | CNode pt

fun cls :: "pt \<Rightarrow> string" where
  "cls (Node k b txt it cs) = k"

fun tostr :: "pt \<Rightarrow> string" where
  "tostr (Node k b txt it cs) = txt"

fun item :: "pt \<Rightarrow> reader_item option" where
  "item (Node k b txt it cs) = it"

text \<open>\<open>isinstance(c, K)\<close> for a child \<open>c\<close> of a node.\<close>

fun isinstance :: "child \<Rightarrow> string \<Rightarrow> bool" where
  "isinstance (CNode p) k = (cls p = k)"
| "isinstance c k = False"

text \<open>
  The configuration of one lowering: the global switch
  \<open>config['frontend-strict-mode']\<close>, the lines of the raw source (with their line
  ends), the definitions table, and the shape inference
  \<open>ExpressionDimensionsMapper\<close>, which is not among the sources at hand and is
  taken as given.
\<close>

record env =
  strict :: bool
  raw_source :: "string list"
  definitions :: "module_def list"
  dimensions_mapper :: "val \<Rightarrow> val"

text \<open>
  What a handler can change: the scope it lowers into (\<open>kwargs['scope']\<close>, mutated
  in place by imports and associations) and the log.
\<close>

datatype log_level = WARNING | ERROR

record state =
  symbols :: scope
  log :: "(log_level \<times> string) list"

text \<open>The keyword arguments threaded through every dispatch step.\<close>

record kwargs =
  kw_source :: "source option"
  kw_label :: "nat option"

type_synonym 'a lowering = "state \<Rightarrow> (error + 'a) \<times> state"

definition ret :: "'a \<Rightarrow> 'a lowering" where
  "ret x = (\<lambda>s. (Inr x, s))"

definition raise :: "error \<Rightarrow> 'a lowering" where
  "raise e = (\<lambda>s. (Inl e, s))"

definition bind :: "'a lowering \<Rightarrow> ('a \<Rightarrow> 'b lowering) \<Rightarrow> 'b lowering" where
  "bind m f = (\<lambda>s. case m s of (Inl e, s') \<Rightarrow> (Inl e, s') | (Inr x, s') \<Rightarrow> f x s')"

definition lift :: "error + 'a \<Rightarrow> 'a lowering" where
  "lift r = (\<lambda>s. (r, s))"

definition py_assert :: "bool \<Rightarrow> unit lowering" where
  "py_assert b = (if b then ret () else raise AssertionError)"

fun mapM :: "('a \<Rightarrow> 'b lowering) \<Rightarrow> 'a list \<Rightarrow> 'b list lowering" where
  "mapM f [] = ret []"
| "mapM f (x # xs) = bind (f x) (\<lambda>y. bind (mapM f xs) (\<lambda>ys. ret (y # ys)))"

text \<open>
  A child together with the action that lowers it: \<open>self.visit(c, **kwargs)\<close> for a
  child \<open>c\<close> is the second component applied to the keyword arguments.
\<close>

type_synonym action = "kwargs \<Rightarrow> val lowering"
type_synonym kid = "child \<times> action"
type_synonym handler = "env \<Rightarrow> pt \<Rightarrow> kid list \<Rightarrow> kwargs \<Rightarrow> val lowering"

definition visit_kid :: "kwargs \<Rightarrow> kid \<Rightarrow> val lowering" where
  "visit_kid kw k = snd k kw"

definition visit_all :: "kwargs \<Rightarrow> kid list \<Rightarrow> val list lowering" where
  "visit_all kw ks = mapM (visit_kid kw) ks"

text \<open>\<open>o.children[i]\<close> lowered.\<close>

definition visit_at :: "kid list \<Rightarrow> nat \<Rightarrow> kwargs \<Rightarrow> val lowering" where
  "visit_at ks i kw = bind (lift (item_at ks i)) (visit_kid kw)"

text \<open>\<open>xs[a:b]\<close> and \<open>xs[a:]\<close> for indices that are not negative.\<close>

definition slice :: "'a list \<Rightarrow> nat \<Rightarrow> nat \<Rightarrow> 'a list" where
  "slice xs a b = take (b - a) (drop a xs)"

text \<open>\<open>xs[i:j]\<close> for any integers: a negative index counts from the end.\<close>

definition clamp_index :: "nat \<Rightarrow> int \<Rightarrow> nat" where
  "clamp_index n i = (if i < 0 then nat (max 0 (int n + i)) else min n (nat i))"

definition py_slice :: "'a list \<Rightarrow> int \<Rightarrow> int \<Rightarrow> 'a list" where
  "py_slice xs i j = slice xs (clamp_index (length xs) i) (clamp_index (length xs) j)"

text \<open>\<open>s.strip('\n')\<close>.\<close>

definition strip_newlines :: "string \<Rightarrow> string" where
  "strip_newlines s =
     rev (dropWhile (\<lambda>c. c = CHR 0x0A) (rev (dropWhile (\<lambda>c. c = CHR 0x0A) s)))"

text \<open>The source object of the lines \<open>l0\<close> to \<open>l1\<close> (counted from 1).\<close>

definition source_of_lines :: "env \<Rightarrow> int \<Rightarrow> int \<Rightarrow> source" where
  "source_of_lines env l0 l1 =
     Source (l0, l1) (strip_newlines (concat (py_slice (raw_source env) (l0 - 1) l1)))"

definition get_source :: "env \<Rightarrow> pt \<Rightarrow> source option \<Rightarrow> source option" where
  "get_source env o' src =
     (case item o' of
        Some it \<Rightarrow> Some (source_of_lines env (fst (item_span it)) (snd (item_span it)))
      | None \<Rightarrow> src)"

definition get_label :: "pt \<Rightarrow> nat option" where
  "get_label o' = (case item o' of Some it \<Rightarrow> item_label it | None \<Rightarrow> None)"

text \<open>\<open>get_child(o, K)\<close> followed by \<open>o.children.index(...)\<close>: the position of the
  first child of class \<open>K\<close>; \<open>index\<close> raises \<open>ValueError\<close> when there is none.\<close>

fun find_index :: "('a \<Rightarrow> bool) \<Rightarrow> 'a list \<Rightarrow> nat option" where
  "find_index P [] = None"
| "find_index P (x # xs) =
     (if P x then Some 0 else (case find_index P xs of None \<Rightarrow> None | Some i \<Rightarrow> Some (Suc i)))"

definition child_index :: "kid list \<Rightarrow> string \<Rightarrow> nat lowering" where
  "child_index ks k =
     (case find_index (\<lambda>c. isinstance (fst c) k) ks of
        None \<Rightarrow> raise ValueError
      | Some i \<Rightarrow> ret i)"

subsection \<open>\<open>warn_or_fail\<close> and the generic fallbacks\<close>

definition warn_or_fail :: "env \<Rightarrow> string \<Rightarrow> unit lowering" where
  "warn_or_fail env msg =
     (\<lambda>s. if strict env
          then (Inl NotImplementedError, s\<lparr>log := log s @ [(ERROR, msg)]\<rparr>)
          else (Inr (), s\<lparr>log := log s @ [(WARNING, msg)]\<rparr>))"

text \<open>The end of both fallbacks: one result is returned as it is, several as a tuple,
  none as \<open>None\<close>.\<close>

definition flatten_hierarchy :: "val list \<Rightarrow> val" where
  "flatten_hierarchy children =
     (if length children = 1 then hd children
      else if length children > 0 then VTuple children else VNone)"

definition visit_Base :: handler where
  "visit_Base env o' ks kw =
     bind (warn_or_fail env (''No specific handler for node type '' @ cls o')) (\<lambda>_.
     bind (visit_all kw (filter (\<lambda>k. fst k \<noteq> CNone) ks)) (\<lambda>children.
     ret (flatten_hierarchy children)))"

definition visit_BlockBase :: handler where
  "visit_BlockBase env o' ks kw =
     bind (warn_or_fail env (''No specific handler for node type '' @ cls o')) (\<lambda>_.
     bind (visit_all kw ks) (\<lambda>children.
     ret (flatten_hierarchy (filter (\<lambda>c. c \<noteq> VNone) children))))"

subsection \<open>The generic dispatch\<close>

text \<open>
  \<open>FParser2IR.visit\<close>: derive source and label of the node, then call the handler
  registered for its class; a class without a handler of its own reaches the
  handler of its base class, \<open>visit_BlockBase\<close> or \<open>visit_Base\<close>. The dispatch
  table is an argument, so that what is shown for it holds for the table of the
  source and for any extension of the part written out below. Visiting \<open>None\<close>
  fails in \<open>get_source\<close> (\<open>None\<close> has no \<open>item\<close>); a string reaches the default
  of the visitor base class, which returns \<open>None\<close>.
\<close>

fun visit :: "(string \<Rightarrow> handler option) \<Rightarrow> env \<Rightarrow> pt \<Rightarrow> action"
and visit_child :: "(string \<Rightarrow> handler option) \<Rightarrow> env \<Rightarrow> child \<Rightarrow> action" where
  "visit tbl env (Node k b txt it cs) =
     (\<lambda>kw. let o' = Node k b txt it cs;
                kw' = \<lparr>kw_source = get_source env o' (kw_source kw), kw_label = get_label o'\<rparr>;
                ks = map (\<lambda>c. (c, visit_child tbl env c)) cs
            in (case tbl k of
                  Some h \<Rightarrow> h env o' ks kw'
                | None \<Rightarrow> (if b then visit_BlockBase env o' ks kw' else visit_Base env o' ks kw')))"
| "visit_child tbl env CNone = (\<lambda>kw. raise AttributeError)"
| "visit_child tbl env (CStr s) = (\<lambda>kw. ret VNone)"
| "visit_child tbl env (CNode p) = visit tbl env p"

subsection \<open>Names, references and literals\<close>

definition visit_List :: handler where
  "visit_List env o' ks kw = bind (visit_all kw ks) (\<lambda>vs. ret (VTuple vs))"

definition visit_Name :: handler where
  "visit_Name env o' ks kw = ret (Variable (tostr o') VNone)"

text \<open>\<open>v.name\<close> and \<open>v.clone(dimensions=d)\<close> exist on variables only.\<close>

fun name_of :: "val \<Rightarrow> error + string" where
  "name_of (Variable n d) = Inr n"
| "name_of v = Inl AttributeError"

definition list_all_names :: "val list \<Rightarrow> error + string list" where
  "list_all_names vs =
     foldr (\<lambda>v r. ebind (name_of v) (\<lambda>n. ebind r (\<lambda>ns. Inr (n # ns)))) vs (Inr [])"

fun clone_dimensions :: "val \<Rightarrow> val \<Rightarrow> error + val" where
  "clone_dimensions (Variable n d) d' = Inr (Variable n d')"
| "clone_dimensions v d' = Inl AttributeError"

text \<open>\<open>_type and isinstance(_type.dtype, ProcedureType)\<close> for the result of a lookup.\<close>

fun is_procedure :: "symbol_attributes option \<Rightarrow> bool" where
  "is_procedure None = False"
| "is_procedure (Some a) = (case dtype a of ProcedureType n f \<Rightarrow> True | _ \<Rightarrow> False)"

definition visit_Part_Ref :: handler where
  "visit_Part_Ref env o' ks kw =
     bind (visit_at ks 0 kw) (\<lambda>name.
     bind (visit_at ks 1 kw) (\<lambda>dimensions.
     bind (if truthy dimensions then lift (clone_dimensions name dimensions) else ret name) (\<lambda>name.
     bind (lift (name_of name)) (\<lambda>n.
     (\<lambda>s. (if is_procedure (lookup (symbols s) n)
            then bind (lift (clone_dimensions name VNone)) (\<lambda>name.
                 ret (InlineCall name dimensions []))
            else ret name) s)))))"

text \<open>\<open>str.isdigit()\<close> and \<open>int(s)\<close> for a sign followed by decimal digits.\<close>

definition is_digit :: "char \<Rightarrow> bool" where
  "is_digit c = (48 \<le> (of_char c :: nat) \<and> (of_char c :: nat) \<le> 57)"

definition isdigit :: "string \<Rightarrow> bool" where
  "isdigit s = (s \<noteq> [] \<and> list_all is_digit s)"

definition digits_value :: "string \<Rightarrow> nat" where
  "digits_value s = foldl (\<lambda>acc c. 10 * acc + ((of_char c :: nat) - 48)) 0 s"

definition int_of_str :: "string \<Rightarrow> error + int" where
  "int_of_str s =
     (case s of
        [] \<Rightarrow> Inl ValueError
      | c # r \<Rightarrow>
          (if c = CHR ''-'' then (if isdigit r then Inr (- int (digits_value r)) else Inl ValueError)
           else if c = CHR ''+'' then (if isdigit r then Inr (int (digits_value r)) else Inl ValueError)
           else if isdigit s then Inr (int (digits_value s)) else Inl ValueError))"

text \<open>
  \<open>sym.Literal\<close> chooses the literal class by the type it is given; the factory is
  not among the sources at hand: an \<open>INTEGER\<close> becomes an \<open>IntLiteral\<close> of the
  integer value, a \<open>REAL\<close> a \<open>FloatLiteral\<close> that keeps the text.
\<close>

definition Literal :: "string \<Rightarrow> dtype \<Rightarrow> val \<Rightarrow> error + val" where
  "Literal v t k =
     (if t = INTEGER then ebind (int_of_str v) (\<lambda>i. Inr (IntLiteral i k))
      else if t = REAL then Inr (FloatLiteral v k)
      else Inl NotImplementedError)"

text \<open>A child that the source uses as a string (an operator, a value, a kind).\<close>

fun child_str :: "child \<Rightarrow> error + string" where
  "child_str (CStr s) = Inr s"
| "child_str c = Inl AttributeError"

definition raw_at :: "kid list \<Rightarrow> nat \<Rightarrow> error + child" where
  "raw_at ks i = ebind (item_at ks i) (\<lambda>k. Inr (fst k))"

definition visit_literal :: "dtype \<Rightarrow> handler" where
  "visit_literal t env o' ks kw =
     lift (ebind (raw_at ks 0) (\<lambda>c0. ebind (child_str c0) (\<lambda>v.
           ebind (raw_at ks 1) (\<lambda>c1.
             (case c1 of
                CNone \<Rightarrow> Literal v t VNone
              | _ \<Rightarrow> ebind (child_str c1) (\<lambda>k.
                       if isdigit k
                       then ebind (int_of_str k) (\<lambda>i. Literal v t (IntLiteral i VNone))
                       else Literal v t (Variable k VNone)))))))"

definition visit_Int_Literal_Constant :: handler where
  "visit_Int_Literal_Constant = visit_literal INTEGER"

definition visit_Real_Literal_Constant :: handler where
  "visit_Real_Literal_Constant = visit_literal REAL"

subsection \<open>Operators, parentheses and simple statements\<close>

definition operator_at :: "kid list \<Rightarrow> nat \<Rightarrow> string lowering" where
  "operator_at ks i = lift (ebind (raw_at ks i) child_str)"

definition visit_Add_Operand :: handler where
  "visit_Add_Operand env o' ks kw =
     (if length ks > 2 then
        bind (visit_at ks 0 kw) (\<lambda>e1.
        bind (visit_at ks 2 kw) (\<lambda>e2.
        bind (operator_at ks 1) (\<lambda>op.
        lift (create_operation op [e1, e2]))))
      else
        bind (visit_at ks 1 kw) (\<lambda>e.
        bind (operator_at ks 0) (\<lambda>op.
        lift (create_operation op [e]))))"

definition visit_Level_2_Expr :: handler where
  "visit_Level_2_Expr env o' ks kw =
     bind (visit_at ks 0 kw) (\<lambda>e1.
     bind (visit_at ks 2 kw) (\<lambda>e2.
     bind (operator_at ks 1) (\<lambda>op.
     lift (create_operation op [e1, e2]))))"

definition visit_Level_2_Unary_Expr :: handler where
  "visit_Level_2_Unary_Expr env o' ks kw =
     bind (visit_at ks 1 kw) (\<lambda>e.
     bind (operator_at ks 0) (\<lambda>op.
     lift (create_operation op (as_tuple e))))"

fun parenthesised :: "val \<Rightarrow> val" where
  "parenthesised (Sum xs) = ParenthesisedAdd xs"
| "parenthesised (Product xs) = ParenthesisedMul xs"
| "parenthesised (Power b e) = ParenthesisedPow b e"
| "parenthesised v = v"

definition visit_Parenthesis :: handler where
  "visit_Parenthesis env o' ks kw =
     bind (visit_at ks 1 kw) (\<lambda>expression. ret (parenthesised expression))"

definition visit_Assignment_Stmt :: handler where
  "visit_Assignment_Stmt env o' ks kw =
     bind (visit_at ks 0 kw) (\<lambda>lhs.
     bind (visit_at ks 2 kw) (\<lambda>rhs.
     ret (Assignment lhs rhs (cls o' = ''Pointer_Assignment_Stmt'') (kw_label kw) (kw_source kw))))"

definition visit_Intrinsic_Stmt :: handler where
  "visit_Intrinsic_Stmt env o' ks kw = ret (Intrinsic (tostr o') (kw_label kw) (kw_source kw))"

subsection \<open>Constructs bounded by marker statements\<close>

text \<open>The reader item of a marker statement; \<open>.item.span\<close> fails on \<open>None\<close>.\<close>

fun child_item :: "child \<Rightarrow> error + reader_item" where
  "child_item (CNode p) = (case item p of None \<Rightarrow> Inl AttributeError | Some it \<Rightarrow> Inr it)"
| "child_item c = Inl AttributeError"

definition item_of :: "kid list \<Rightarrow> nat \<Rightarrow> reader_item lowering" where
  "item_of ks i = lift (ebind (raw_at ks i) child_item)"

text \<open>The source object that spans a construct from one marker to another.\<close>

definition block_source :: "env \<Rightarrow> reader_item \<Rightarrow> reader_item \<Rightarrow> source" where
  "block_source env start_item end_item =
     source_of_lines env (fst (item_span start_item)) (snd (item_span end_item))"

text \<open>The positions of all children of a class, in order
  (\<open>i for i, c in enumerate(o.children) if isinstance(c, K)\<close>).\<close>

definition indices_of :: "kid list \<Rightarrow> string \<Rightarrow> nat list" where
  "indices_of ks k = filter (\<lambda>i. isinstance (fst (ks ! i)) k) [0..<length ks]"

text \<open>
  The loop that builds the chain of conditionals backwards. The four lists have
  one entry for the \<open>IF\<close> and one for each \<open>ELSE IF\<close>, so none of them is empty
  and every index is in range.
\<close>

definition build_conditional ::
  "val list \<Rightarrow> val list list \<Rightarrow> nat option list \<Rightarrow> source list \<Rightarrow> val list \<Rightarrow> val" where
  "build_conditional conditions bodies labels sources else_body =
     foldl (\<lambda>node idx.
              Conditional (conditions ! idx) (bodies ! idx) [node] False True
                          (labels ! idx) (Some (sources ! idx)) None)
           (Conditional (last conditions) (last bodies) else_body False False
                        (last labels) (Some (last sources)) None)
           (rev [0..<length conditions - 1])"

text \<open>\<open>node._update(name=name)\<close>.\<close>

fun update_name :: "val \<Rightarrow> string option \<Rightarrow> val" where
  "update_name (Conditional c b e i h l s n) n' = Conditional c b e i h l s n'"
| "update_name v n' = v"

definition visit_If_Construct :: handler where
  "visit_If_Construct env o' ks kw =
     bind (child_index ks ''If_Then_Stmt'') (\<lambda>if_then_stmt_index.
     bind (child_index ks ''End_If_Stmt'') (\<lambda>end_if_stmt_index.
     bind (visit_all kw (take if_then_stmt_index ks)) (\<lambda>pre.
     let else_if_stmt_index = indices_of ks ''Else_If_Stmt'';
         else_stmt_index =
           (case find_index (\<lambda>c. isinstance (fst c) ''Else_Stmt'') ks of
              Some i \<Rightarrow> i | None \<Rightarrow> end_if_stmt_index);
         conditionals = if_then_stmt_index # else_if_stmt_index
     in
     bind (visit_all kw (map (\<lambda>i. ks ! i) conditionals)) (\<lambda>conditions.
     bind (mapM (\<lambda>(start, stop). visit_all kw (slice ks (start + 1) stop))
                (zip conditionals (else_if_stmt_index @ [else_stmt_index]))) (\<lambda>bodies.
     bind (visit_all kw (slice ks (else_stmt_index + 1) end_if_stmt_index)) (\<lambda>else_body.
     bind (item_of ks end_if_stmt_index) (\<lambda>end_item.
     bind (mapM (item_of ks) conditionals) (\<lambda>items.
     let sources = map (\<lambda>it. block_source env it end_item) items;
         labels = map item_label items;
         node = build_conditional conditions bodies labels sources else_body;
         node = update_name node (item_name (hd items))
     in
     bind (py_assert (drop (end_if_stmt_index + 1) ks = [])) (\<lambda>_.
     ret (VTuple (pre @ [node])))))))))))"

definition visit_If_Then_Stmt :: handler where
  "visit_If_Then_Stmt env o' ks kw = visit_at ks 0 kw"

text \<open>
  Associations. Each is a pair of the selector and the new name. Rescoping the
  variables of a selector (\<open>FindTypedSymbols\<close>, \<open>SubstituteExpressions\<close>) changes
  the scope reference of variable nodes only, which this model does not store, so
  it leaves the pair as it is. Binding a name to the \<open>None\<close> of a failed lookup
  leaves it without a definition in the local table.
\<close>

fun unbind_symbol :: "scope \<Rightarrow> string \<Rightarrow> scope" where
  "unbind_symbol (Scope t p) n = Scope (AList.delete (lower n) t) p"

definition scalar_shape :: "val \<Rightarrow> val" where
  "scalar_shape sh = (if sh = VTuple [IntLiteral 1 VNone] then VNone else sh)"

definition associate_symbol :: "env \<Rightarrow> val \<Rightarrow> unit lowering" where
  "associate_symbol env assoc =
     (case assoc of
        VTuple [expr, name] \<Rightarrow>
          bind (lift (name_of name)) (\<lambda>n.
          (case expr of
             Variable en d \<Rightarrow>
               (\<lambda>s. (case lookup (symbols s) en of
                        None \<Rightarrow>
                          (if d \<noteq> VNone then raise AttributeError
                           else (\<lambda>s. (Inr (), s\<lparr>symbols := unbind_symbol (symbols s) n\<rparr>)))
                      | Some t \<Rightarrow>
                          (let t' = (if d \<noteq> VNone
                                     then t\<lparr>shape := scalar_shape (dimensions_mapper env expr)\<rparr>
                                     else t)
                           in (\<lambda>s. (Inr (), s\<lparr>symbols := define_symbol (symbols s) n t'\<rparr>)))) s)
           | _ \<Rightarrow>
               (\<lambda>s. (Inr (), s\<lparr>symbols := define_symbol (symbols s) n
                         ((SymbolAttributes DEFERRED)
                            \<lparr>shape := scalar_shape (dimensions_mapper env expr)\<rparr>)\<rparr>))))
      | _ \<Rightarrow> raise ValueError)"

definition check_pairs :: "val list \<Rightarrow> unit lowering" where
  "check_pairs associations =
     (if list_all (\<lambda>a. case a of VTuple [e, n] \<Rightarrow> (case n of Variable x d \<Rightarrow> True | _ \<Rightarrow> False)
                            | _ \<Rightarrow> False) associations
      then ret () else raise ValueError)"

definition visit_Associate_Construct :: handler where
  "visit_Associate_Construct env o' ks kw =
     bind (child_index ks ''Associate_Stmt'') (\<lambda>assoc_stmt_index.
     bind (child_index ks ''End_Associate_Stmt'') (\<lambda>end_assoc_stmt_index.
     bind (visit_all kw (take assoc_stmt_index ks)) (\<lambda>pre.
     bind (item_of ks assoc_stmt_index) (\<lambda>start_item.
     bind (item_of ks end_assoc_stmt_index) (\<lambda>end_item.
     let source = block_source env start_item end_item in
     bind (visit_at ks assoc_stmt_index kw) (\<lambda>associations.
     let associations = as_tuple associations in
     bind (check_pairs associations) (\<lambda>_.
     bind (mapM (associate_symbol env) associations) (\<lambda>_.
     bind (visit_all kw (slice ks (assoc_stmt_index + 1) end_assoc_stmt_index)) (\<lambda>body.
     let associate = Associate associations body (kw_label kw) (Some source) in
     bind (py_assert (drop (end_assoc_stmt_index + 1) ks = [])) (\<lambda>_.
     ret (VTuple (pre @ [associate]))))))))))))"

definition visit_Associate_Stmt :: handler where
  "visit_Associate_Stmt env o' ks kw =
     bind (lift (ebind (raw_at ks 0) child_str)) (\<lambda>c.
     bind (py_assert (upper c = ''ASSOCIATE'')) (\<lambda>_.
     visit_at ks 1 kw))"

definition visit_Association :: handler where
  "visit_Association env o' ks kw =
     bind (lift (raw_at ks 1)) (\<lambda>arrow.
     bind (py_assert (arrow = CStr ''=>'')) (\<lambda>_.
     bind (visit_at ks 0 kw) (\<lambda>associate_name.
     bind (visit_at ks 2 kw) (\<lambda>selector.
     ret (VTuple [selector, associate_name])))))"

definition visit_Interface_Block :: handler where
  "visit_Interface_Block env o' ks kw =
     bind (child_index ks ''Interface_Stmt'') (\<lambda>interface_stmt_index.
     bind (child_index ks ''End_Interface_Stmt'') (\<lambda>end_interface_stmt_index.
     bind (visit_all kw (take interface_stmt_index ks)) (\<lambda>pre.
     bind (item_of ks interface_stmt_index) (\<lambda>start_item.
     bind (item_of ks end_interface_stmt_index) (\<lambda>end_item.
     let source = block_source env start_item end_item in
     bind (visit_at ks interface_stmt_index kw) (\<lambda>spec.
     bind (visit_all kw (slice ks (interface_stmt_index + 1) end_interface_stmt_index)) (\<lambda>body.
     let interface = Interface spec body (kw_label kw) (Some source) in
     bind (py_assert (drop (end_interface_stmt_index + 1) ks = [])) (\<lambda>_.
     ret (VTuple (pre @ [interface]))))))))))"

definition visit_Interface_Stmt :: handler where
  "visit_Interface_Stmt env o' ks kw =
     bind (lift (raw_at ks 0)) (\<lambda>c.
     (case c of
        CNone \<Rightarrow> ret VNone
      | CStr s \<Rightarrow> (if s = ''ABSTRACT'' then ret (VStr ''ABSTRACT'') else raise AttributeError)
      | CNode p \<Rightarrow> ret (VStr (tostr p))))"

text \<open>\<open>xs.index(v)\<close> for a value known to be in the list, and the list without that
  position.\<close>

definition without :: "'a list \<Rightarrow> nat \<Rightarrow> 'a list" where
  "without xs i = take i xs @ drop (i + 1) xs"

definition visit_Case_Construct :: handler where
  "visit_Case_Construct env o' ks kw =
     bind (child_index ks ''Select_Case_Stmt'') (\<lambda>select_case_stmt_index.
     bind (child_index ks ''End_Select_Stmt'') (\<lambda>end_select_stmt_index.
     bind (visit_all kw (take select_case_stmt_index ks)) (\<lambda>pre.
     bind (item_of ks select_case_stmt_index) (\<lambda>start_item.
     bind (item_of ks end_select_stmt_index) (\<lambda>end_item.
     let source = block_source env start_item end_item in
     bind (visit_at ks select_case_stmt_index kw) (\<lambda>expr.
     let name = item_name start_item;
         label = item_label start_item;
         case_stmt_index = indices_of ks ''Case_Stmt''
     in
     bind (if case_stmt_index = [] then raise ValueError else ret ()) (\<lambda>_.
     bind (py_assert (hd case_stmt_index = select_case_stmt_index + 1)) (\<lambda>_.
     bind (visit_all kw (map (\<lambda>i. ks ! i) case_stmt_index)) (\<lambda>values.
     bind (mapM (\<lambda>(start, stop). visit_all kw (slice ks (start + 1) stop))
                (zip case_stmt_index (tl case_stmt_index @ [end_select_stmt_index]))) (\<lambda>bodies.
     let default_index = find_index (\<lambda>v. v = VStr ''DEFAULT'') values;
         else_body = (case default_index of None \<Rightarrow> VNone | Some i \<Rightarrow> VTuple (bodies ! i));
         values = (case default_index of None \<Rightarrow> values | Some i \<Rightarrow> without values i);
         bodies = (case default_index of None \<Rightarrow> bodies | Some i \<Rightarrow> without bodies i)
     in
     bind (py_assert (drop (end_select_stmt_index + 1) ks = [])) (\<lambda>_.
     ret (VTuple (pre @ [MultiConditional expr values (map VTuple bodies) else_body
                                          label name (Some source)])))))))))))))"

definition visit_Select_Case_Stmt :: handler where
  "visit_Select_Case_Stmt env o' ks kw = visit_at ks 0 kw"

definition visit_Case_Stmt :: handler where
  "visit_Case_Stmt env o' ks kw = visit_at ks 0 kw"

definition visit_Case_Selector :: handler where
  "visit_Case_Selector env o' ks kw =
     bind (lift (raw_at ks 0)) (\<lambda>c.
     (case c of CNone \<Rightarrow> ret (VStr ''DEFAULT'') | _ \<Rightarrow> visit_at ks 0 kw))"

definition visit_Case_Value_Range :: handler where
  "visit_Case_Value_Range env o' ks kw =
     bind (lift (raw_at ks 0)) (\<lambda>c0.
     bind (if c0 \<noteq> CNone then visit_at ks 0 kw else ret VNone) (\<lambda>start.
     bind (lift (raw_at ks 1)) (\<lambda>c1.
     bind (if c1 \<noteq> CNone then visit_at ks 1 kw else ret VNone) (\<lambda>stop.
     ret (RangeIndex [start, stop])))))"

subsection \<open>Imports\<close>

text \<open>\<open>CaseInsensitiveDict((d.name, d) for d in definitions).get(name)\<close>: of two
  modules with the same name the later one is kept.\<close>

definition get_definition :: "env \<Rightarrow> string \<Rightarrow> module_def option" where
  "get_definition env name =
     map_of (rev (map (\<lambda>d. (lower (mod_name d), d)) (definitions env))) (lower name)"

text \<open>\<open>v.clone(imported=True, module=module)\<close>.\<close>

definition clone_imported :: "module_def \<Rightarrow> symbol_attributes \<Rightarrow> symbol_attributes" where
  "clone_imported m a = a\<lparr>imported := Some True, module := Some (mod_name m)\<rparr>"

definition set_symbol :: "string \<Rightarrow> symbol_attributes \<Rightarrow> unit lowering" where
  "set_symbol n a = (\<lambda>s. (Inr (), s\<lparr>symbols := define_symbol (symbols s) n a\<rparr>))"

fun child_tostr :: "child \<Rightarrow> error + string" where
  "child_tostr (CNode p) = Inr (tostr p)"
| "child_tostr c = Inl AttributeError"

definition visit_Use_Stmt :: handler where
  "visit_Use_Stmt env o' ks kw =
     bind (lift (raw_at ks 0)) (\<lambda>nature.
     bind (if nature \<noteq> CNone
           then warn_or_fail env ''module-nature not implemented for USE statements''
           else ret ()) (\<lambda>_.
     bind (lift (ebind (raw_at ks 2) child_tostr)) (\<lambda>name.
     let module = get_definition env name in
     bind (lift (raw_at ks 3)) (\<lambda>list_kind.
     bind
       (if list_kind = CStr '''' then
          bind (case module of
                  None \<Rightarrow> ret []
                | Some m \<Rightarrow> mapM (\<lambda>(k, v). set_symbol k (clone_imported m v)) (mod_symbols m))
               (\<lambda>_. ret VNone)
        else if list_kind = CStr '', ONLY:'' then
          bind (lift (raw_at ks 4)) (\<lambda>only.
          bind (if only = CNone then ret (VTuple []) else visit_at ks 4 kw) (\<lambda>symbols.
          bind (case module of
                  None \<Rightarrow>
                    bind (lift (list_all_names (as_tuple symbols))) (\<lambda>names.
                    mapM (\<lambda>n. set_symbol n ((SymbolAttributes DEFERRED)\<lparr>imported := Some True\<rparr>))
                         names)
                | Some m \<Rightarrow>
                    mapM (\<lambda>s. bind (lift (name_of s)) (\<lambda>n.
                               bind (lift (table_get (mod_symbols m) n)) (\<lambda>a.
                               set_symbol n (clone_imported m a))))
                         (as_tuple symbols))
               (\<lambda>_. ret (VTuple (as_tuple symbols)))))
        else if list_kind = CStr '','' then
          bind (warn_or_fail env ''rename lists not implemented for USE statements'') (\<lambda>_.
          raise UnboundLocalError)
        else raise ValueError)
       (\<lambda>symbols. ret (Import name symbols (kw_source kw) (kw_label kw)))))))"

subsection \<open>The dispatch table\<close>

text \<open>
  The handlers written out above under the classes the source registers them for
  (\<open>visit_Level_3_Expr = visit_Level_2_Expr\<close> and so on). The source has more
  handlers; a class that has one there and none here is outside the model.
\<close>

definition handlers :: "string \<Rightarrow> handler option" where
  "handlers = map_of
     [(''Name'', visit_Name),
      (''Intrinsic_Name'', visit_Name),
      (''Part_Ref'', visit_Part_Ref),
      (''Section_Subscript_List'', visit_List),
      (''Only_List'', visit_List),
      (''Association_List'', visit_List),
      (''Case_Value_Range_List'', visit_List),
      (''Use_Stmt'', visit_Use_Stmt),
      (''Int_Literal_Constant'', visit_Int_Literal_Constant),
      (''Signed_Int_Literal_Constant'', visit_Int_Literal_Constant),
      (''Real_Literal_Constant'', visit_Real_Literal_Constant),
      (''Signed_Real_Literal_Constant'', visit_Real_Literal_Constant),
      (''Add_Operand'', visit_Add_Operand),
      (''Mult_Operand'', visit_Add_Operand),
      (''And_Operand'', visit_Add_Operand),
      (''Or_Operand'', visit_Add_Operand),
      (''Equiv_Operand'', visit_Add_Operand),
      (''Level_2_Expr'', visit_Level_2_Expr),
      (''Level_3_Expr'', visit_Level_2_Expr),
      (''Level_4_Expr'', visit_Level_2_Expr),
      (''Level_5_Expr'', visit_Level_2_Expr),
      (''Level_2_Unary_Expr'', visit_Level_2_Unary_Expr),
      (''Parenthesis'', visit_Parenthesis),
      (''Assignment_Stmt'', visit_Assignment_Stmt),
      (''Pointer_Assignment_Stmt'', visit_Assignment_Stmt),
      (''Continue_Stmt'', visit_Intrinsic_Stmt),
      (''Return_Stmt'', visit_Intrinsic_Stmt),
      (''Write_Stmt'', visit_Intrinsic_Stmt),
      (''If_Construct'', visit_If_Construct),
      (''If_Then_Stmt'', visit_If_Then_Stmt),
      (''Else_If_Stmt'', visit_If_Then_Stmt),
      (''Associate_Construct'', visit_Associate_Construct),
      (''Associate_Stmt'', visit_Associate_Stmt),
      (''Association'', visit_Association),
      (''Interface_Block'', visit_Interface_Block),
      (''Interface_Stmt'', visit_Interface_Stmt),
      (''Case_Construct'', visit_Case_Construct),
      (''Select_Case_Stmt'', visit_Select_Case_Stmt),
      (''Case_Stmt'', visit_Case_Stmt),
      (''Case_Selector'', visit_Case_Selector),
      (''Case_Value_Range'', visit_Case_Value_Range),
      (''Stride'', visit_Base),
      (''Array_Section'', visit_Base),
      (''Substring_Range'', visit_Base)]"

section \<open>Code generation\<close>

subsection \<open>Precedences and text helpers\<close>

text \<open>The precedence levels of the stringifier library and its rule for parentheses.\<close>

definition PREC_NONE :: nat where "PREC_NONE = 0"
definition PREC_SUM :: nat where "PREC_SUM = 11"
definition PREC_PRODUCT :: nat where "PREC_PRODUCT = 12"

definition parenthesize_if_needed :: "string \<Rightarrow> nat \<Rightarrow> nat \<Rightarrow> string" where
  "parenthesize_if_needed s enclosing_prec my_prec =
     (if enclosing_prec > my_prec then ''('' @ s @ '')'' else s)"

text \<open>\<open>sep.join(xs)\<close>.\<close>

fun join :: "string \<Rightarrow> string list \<Rightarrow> string" where
  "join sep [] = []"
| "join sep [x] = x"
| "join sep (x # y # ys) = x @ sep @ join sep (y # ys)"

text \<open>\<open>str(n)\<close> for an integer.\<close>

fun str_nat :: "nat \<Rightarrow> string" where
  "str_nat n = (if n < 10 then [char_of (48 + n)] else str_nat (n div 10) @ [char_of (48 + n mod 10)])"

definition str_int :: "int \<Rightarrow> string" where
  "str_int i = (if i < 0 then ''-'' @ str_nat (nat (- i)) else str_nat (nat i))"

fun sequence :: "(error + 'a) list \<Rightarrow> error + 'a list" where
  "sequence [] = Inr []"
| "sequence (r # rs) = ebind r (\<lambda>x. ebind (sequence rs) (\<lambda>xs. Inr (x # xs)))"

subsection \<open>The streaming backend: \<open>MaxjCodeMapper.map_sum\<close>\<close>

text \<open>
  \<open>is_zero(expr.children[0] + 1)\<close>: the library's \<open>is_zero\<close> holds of a number that
  is zero and of no expression node, and adding \<open>1\<close> to a node gives a node; so the
  test holds of the bare number \<open>-1\<close> only.
\<close>

fun is_minus_one :: "val \<Rightarrow> bool" where
  "is_minus_one (PyInt n) = (n + 1 = 0)"
| "is_minus_one v = False"

text \<open>
  \<open>get_neg_product\<close>, the local function of \<open>map_sum\<close>. The parenthesised product
  is a subclass of the product, so \<open>isinstance(expr, Product)\<close> holds of both.
\<close>

definition neg_product_of :: "val list \<Rightarrow> val option" where
  "neg_product_of children =
     (if children \<noteq> [] \<and> is_minus_one (hd children)
      then (if length children = 2 then Some (children ! 1) else Some (Product (tl children)))
      else None)"

fun get_neg_product :: "val \<Rightarrow> val option" where
  "get_neg_product (Product children) = neg_product_of children"
| "get_neg_product (ParenthesisedMul children) = neg_product_of children"
| "get_neg_product v = None"

text \<open>
  \<open>ch in [FloatLiteral(0.0), IntLiteral(0)]\<close>. The comparison of literal nodes is not
  among the sources at hand: a node is taken to equal one of the two when it is
  the integer literal of value 0 or the float literal written \<open>0.0\<close>, of no kind.
\<close>

definition is_added_zero :: "val \<Rightarrow> bool" where
  "is_added_zero ch = (ch = FloatLiteral ''0.0'' VNone \<or> ch = IntLiteral 0 VNone)"

text \<open>
  The loop over the operands of the sum; \<open>rec\<close> is the recursive call of the mapper
  on a sub-expression under an enclosing precedence. It returns the two lists
  \<open>terms\<close> and \<open>is_neg_term\<close>.
\<close>

fun map_sum_loop ::
  "(val \<Rightarrow> nat \<Rightarrow> error + string) \<Rightarrow> val list \<Rightarrow> error + (string list \<times> bool list)" where
  "map_sum_loop rec [] = Inr ([], [])"
| "map_sum_loop rec (ch # chs) =
     (if is_added_zero ch then map_sum_loop rec chs
      else
        ebind (case get_neg_product ch of
                 Some neg_prod \<Rightarrow> rec neg_prod PREC_PRODUCT
               | None \<Rightarrow> rec ch PREC_SUM) (\<lambda>term.
        ebind (map_sum_loop rec chs) (\<lambda>(terms, is_neg_term).
        Inr (term # terms, (get_neg_product ch \<noteq> None) # is_neg_term))))"

definition map_sum ::
  "(val \<Rightarrow> nat \<Rightarrow> error + string) \<Rightarrow> val list \<Rightarrow> nat \<Rightarrow> error + string" where
  "map_sum rec children enclosing_prec =
     ebind (map_sum_loop rec children) (\<lambda>(terms, is_neg_term).
     ebind (item_at is_neg_term 0) (\<lambda>neg0.
     ebind (item_at terms 0) (\<lambda>term0.
     Inr (parenthesize_if_needed
            (concat (((if neg0 then ''-'' else '''') @ term0) #
                     map (\<lambda>(is_neg, term). '' '' @ (if is_neg then ''-'' else ''+'') @ '' '' @ term)
                         (zip (tl is_neg_term) (tl terms))))
            enclosing_prec PREC_SUM))))"

subsection \<open>Assignments in the two backends\<close>

text \<open>
  The assignment node as the printers read it: target and expression, the pointer
  flag and an optional comment. \<open>target_type\<close> is \<open>o.target.type\<close>, the attributes
  bound to the target variable.
\<close>

record statement =
  target :: val
  target_type :: symbol_attributes
  expr :: val
  ptr :: bool
  comment :: val

text \<open>
  \<open>MaxjCodegen.visit_Statement\<close>. The generic part of the printer is not among the
  sources at hand and is taken as given: \<open>visit\<close> renders a sub-node and
  \<open>format_line\<close> renders one line from its items and a trailing comment.
\<close>

definition maxj_visit_Statement ::
  "(val \<Rightarrow> string) \<Rightarrow> (string list \<Rightarrow> string \<Rightarrow> string) \<Rightarrow> statement \<Rightarrow> string" where
  "maxj_visit_Statement visit' format_line o' =
     (let target' = visit' (target o');
          expr' = visit' (expr o');
          comment' = (if truthy (comment o') then ''  '' @ visit' (comment o') else '''')
      in if dfevar (target_type o') \<and> truthy (shape (target_type o'))
         then format_line [target', '' <== '', expr', '';''] comment'
         else format_line [target', '' = '', expr', '';''] comment')"

text \<open>
  \<open>FExprCodegen\<close>, the printer of one Fortran assignment. The state is the line
  built so far and the width of its last physical line; \<open>append\<close> breaks the line
  when the width is exceeded.
\<close>

record fexpr_config =
  linewidth :: nat
  indent :: string

definition append :: "fexpr_config \<Rightarrow> string \<times> nat \<Rightarrow> string \<Rightarrow> string \<times> nat" where
  "append cfg lw txt =
     (if snd lw + length txt > linewidth cfg
      then (fst lw @ [CHR ''&'', CHR 0x0A] @ indent cfg @ ''& '' @ txt, length txt)
      else (fst lw @ txt, snd lw + length txt))"

text \<open>
  The dispatch of \<open>FExprCodegen.visit\<close> on an expression: a variable is printed by
  \<open>visit_Variable\<close> (its sub-variable is \<open>None\<close> here), a tuple by \<open>visit_tuple\<close>,
  and every other expression reaches \<open>visit_Expression\<close>, which appends \<open>str(o)\<close>.
  The text \<open>str(o)\<close> comes from the stringifier of the expression classes and is an
  argument. \<open>len\<close> of dimensions that are neither \<open>None\<close> nor a tuple raises.
\<close>

fun fexpr_visit ::
  "fexpr_config \<Rightarrow> (val \<Rightarrow> string) \<Rightarrow> val \<Rightarrow> string \<times> nat \<Rightarrow> error + (string \<times> nat)"
and fexpr_visit_tuple ::
  "fexpr_config \<Rightarrow> (val \<Rightarrow> string) \<Rightarrow> val list \<Rightarrow> string \<times> nat \<Rightarrow> error + (string \<times> nat)" where
  "fexpr_visit cfg str' (Variable n VNone) line = Inr (append cfg line n)"
| "fexpr_visit cfg str' (Variable n (VTuple ds)) line =
     (let line = append cfg line n in
      if length ds > 0
      then ebind (fexpr_visit_tuple cfg str' ds (append cfg line ''('')) (\<lambda>line.
           Inr (append cfg line '')''))
      else Inr line)"
| "fexpr_visit cfg str' (Variable n d) line = Inl TypeError"
| "fexpr_visit cfg str' (VTuple xs) line = fexpr_visit_tuple cfg str' xs line"
| "fexpr_visit cfg str' v line = Inr (append cfg line (str' v))"
| "fexpr_visit_tuple cfg str' [] line = Inr line"
| "fexpr_visit_tuple cfg str' (e # es) line =
     ebind (fexpr_visit cfg str' e line) (\<lambda>line.
     fexpr_visit_tuple cfg str' es (if es \<noteq> [] then append cfg line '', '' else line))"

definition fexpr_visit_Statement ::
  "fexpr_config \<Rightarrow> (val \<Rightarrow> string) \<Rightarrow> statement \<Rightarrow> string \<times> nat \<Rightarrow> error + (string \<times> nat)" where
  "fexpr_visit_Statement cfg str' o' line =
     ebind (fexpr_visit cfg str' (target o') line) (\<lambda>line.
     let line = append cfg line (if ptr o' then '' => '' else '' = '') in
     fexpr_visit cfg str' (expr o') line)"

text \<open>\<open>fexprgen\<close> applied to an assignment, with its default arguments.\<close>

definition fexprgen :: "(val \<Rightarrow> string) \<Rightarrow> statement \<Rightarrow> error + string" where
  "fexprgen str' o' =
     ebind (fexpr_visit_Statement \<lparr>linewidth = 90, indent = ''''\<rparr> str' o' ('''', 0))
           (\<lambda>line. Inr (fst line))"

subsection \<open>The text of an expression in the passthrough backend\<close>

text \<open>
  Modelled from the spec: the stringifier of the expression classes, which gives
  \<open>str(o)\<close> to the passthrough printer, is not among the sources at hand. By the
  spec a sum is printed term by term, and a term that is a product whose leading
  factor is \<open>-1\<close> is printed as a subtraction of the remaining factors; a composite
  node is put in parentheses when the enclosing precedence requires it. Variables,
  integers, sums and products are covered; other nodes are outside this model.
\<close>

fun passthrough_str :: "val \<Rightarrow> nat \<Rightarrow> error + string" where
  "passthrough_str (Variable n VNone) p = Inr n"
| "passthrough_str (Variable n (VTuple ds)) p =
     ebind (sequence (map (\<lambda>d. passthrough_str d PREC_NONE) ds)) (\<lambda>ts.
     Inr (n @ ''('' @ join '', '' ts @ '')''))"
| "passthrough_str (IntLiteral i VNone) p = Inr (str_int i)"
| "passthrough_str (PyInt i) p = Inr (str_int i)"
| "passthrough_str (Product cs) p =
     ebind (sequence (map (\<lambda>c. passthrough_str c PREC_PRODUCT) cs)) (\<lambda>ts.
     Inr (parenthesize_if_needed (join ''*'' ts) p PREC_PRODUCT))"
| "passthrough_str (Sum cs) p =
     ebind (sequence (map (\<lambda>c.
              case c of
                Product (PyInt i # f # fs) \<Rightarrow>
                  (if i = - 1
                   then ebind (sequence (map (\<lambda>x. passthrough_str x PREC_PRODUCT) (f # fs))) (\<lambda>ts.
                        Inr (True, if fs = [] then hd ts
                                   else parenthesize_if_needed (join ''*'' ts) PREC_PRODUCT PREC_PRODUCT))
                   else ebind (passthrough_str c PREC_SUM) (\<lambda>t. Inr (False, t)))
              | _ \<Rightarrow> ebind (passthrough_str c PREC_SUM) (\<lambda>t. Inr (False, t))) cs)) (\<lambda>terms.
     (case terms of
        [] \<Rightarrow> Inl IndexError
      | (neg0, term0) # rest \<Rightarrow>
          Inr (parenthesize_if_needed
                 (concat (((if neg0 then ''-'' else '''') @ term0) #
                          map (\<lambda>(is_neg, term). '' '' @ (if is_neg then ''-'' else ''+'') @ '' '' @ term) rest))
                 p PREC_SUM)))"
| "passthrough_str v p = Inl NotImplementedError"

text \<open>\<open>str(o)\<close> for the passthrough printer; a node outside the model has no text.\<close>

definition passthrough_text :: "val \<Rightarrow> string" where
  "passthrough_text v = (case passthrough_str v PREC_NONE of Inr t \<Rightarrow> t | Inl e \<Rightarrow> [])"

section \<open>Sample inputs\<close>

text \<open>A lenient configuration without source text or definitions, empty keyword
  arguments, and a state whose scope is one table without a parent.\<close>

definition sample_env :: env where
  "sample_env =
     \<lparr>strict = False, raw_source = [], definitions = [], dimensions_mapper = (\<lambda>v. VNone)\<rparr>"

definition no_kwargs :: kwargs where
  "no_kwargs = \<lparr>kw_source = None, kw_label = None\<rparr>"

definition state_of :: "symbol_table \<Rightarrow> state" where
  "state_of t = \<lparr>symbols = Scope t None, log = []\<rparr>"

text \<open>The parse tree of \<open>foo(1)\<close>.\<close>

definition foo_name :: child where
  "foo_name = CNode (Node ''Name'' False ''foo'' None [])"

definition one_subscript :: child where
  "one_subscript =
     CNode (Node ''Section_Subscript_List'' False ''1'' None
       [CNode (Node ''Int_Literal_Constant'' False ''1'' None [CStr ''1'', CNone])])"

definition foo_ref :: pt where
  "foo_ref = Node ''Part_Ref'' False ''foo(1)'' None [foo_name, one_subscript]"

text \<open>
  The parse tree that the parser gives for the expression \<open>a - b - 1\<close>: binary
  operators associate to the left.
\<close>

definition a_minus_b_minus_1 :: pt where
  "a_minus_b_minus_1 =
     Node ''Level_2_Expr'' False ''a - b - 1'' None
       [CNode (Node ''Level_2_Expr'' False ''a - b'' None
          [CNode (Node ''Name'' False ''a'' None []), CStr ''-'',
           CNode (Node ''Name'' False ''b'' None [])]),
        CStr ''-'',
        CNode (Node ''Int_Literal_Constant'' False ''1'' None [CStr ''1'', CNone])]"

text \<open>The assignment \<open>x = x + 1\<close> to a target of a given type.\<close>

definition x_plus_1 :: "symbol_attributes \<Rightarrow> statement" where
  "x_plus_1 t =
     \<lparr>target = Variable ''x'' VNone, target_type = t,
      expr = Sum [Variable ''x'' VNone, IntLiteral 1 VNone], ptr = False, comment = VNone\<rparr>"










text \<open>The children of a node paired with their lowering under the table \<open>handlers\<close>.\<close>

definition kids_of :: "env \<Rightarrow> child list \<Rightarrow> kid list" where
  "kids_of env cs = map (\<lambda>c. (c, visit_child handlers env c)) cs"

section \<open>Properties of the expression algebra\<close>

text \<open>
  Claim C2. Lowering the binary subtraction of any two operands \<open>a\<close> and \<open>b\<close>
  gives \<open>Sum(a, Product(-1, b))\<close>, and lowering the unary minus of any operand
  \<open>x\<close> gives \<open>Product(-1, x)\<close>: in both the number \<open>-1\<close> is the leading
  factor of a product, and no subtraction or negation node is built.
\<close>

theorem create_operation_minus:
  "create_operation ''-'' [a, b] = Inr (Sum [a, Product [PyInt (- 1), b]]) \<and>
   create_operation ''-'' [x] = Inr (Product [PyInt (- 1), x])"
  by (simp add: create_operation_def ebind_def item_at_def)

text \<open>
  Claim C9. For any two operands \<open>a\<close> and \<open>b\<close> and any spelling of the operator
  (the source compares its lower-case form), \<open>.eqv.\<close> is lowered to
  \<open>LogicalOr(LogicalAnd(a, b), LogicalNot(LogicalOr(a, b)))\<close> and \<open>.neqv.\<close> to
  \<open>LogicalAnd(LogicalNot(LogicalAnd(a, b)), LogicalOr(a, b))\<close>: the result is made of
  And, Or and Not nodes only.
\<close>

theorem create_operation_eqv_neqv:
  "(lower op = ''.eqv.'' \<longrightarrow>
      create_operation op [a, b] =
        Inr (LogicalOr [LogicalAnd [a, b], LogicalNot (LogicalOr [a, b])])) \<and>
   (lower op = ''.neqv.'' \<longrightarrow>
      create_operation op [a, b] =
        Inr (LogicalAnd [LogicalNot (LogicalAnd [a, b]), LogicalOr [a, b]]))"
  by (auto simp add: create_operation_def lower_def)

theorem create_operation_eqv_neqv_witness:
  "lower ''.EQV.'' = ''.eqv.'' \<and> lower ''.Neqv.'' = ''.neqv.'' \<and>
   create_operation ''.EQV.'' [Variable ''a'' VNone, Variable ''b'' VNone] =
     Inr (LogicalOr [LogicalAnd [Variable ''a'' VNone, Variable ''b'' VNone],
                     LogicalNot (LogicalOr [Variable ''a'' VNone, Variable ''b'' VNone])]) \<and>
   create_operation ''.Neqv.'' [Variable ''a'' VNone, Variable ''b'' VNone] =
     Inr (LogicalAnd [LogicalNot (LogicalAnd [Variable ''a'' VNone, Variable ''b'' VNone]),
                      LogicalOr [Variable ''a'' VNone, Variable ''b'' VNone]])"
proof -
  have l1: "lower ''.EQV.'' = ''.eqv.''" by code_simp
  have l2: "lower ''.Neqv.'' = ''.neqv.''" by code_simp
  from l1 l2
    create_operation_eqv_neqv [of "''.EQV.''" "Variable ''a'' VNone" "Variable ''b'' VNone"]
    create_operation_eqv_neqv [of "''.Neqv.''" "Variable ''a'' VNone" "Variable ''b'' VNone"]
  show ?thesis by simp
qed

section \<open>Properties of the lowering engine\<close>

lemma bind_apply:
  "bind m f s = (case m s of (Inl e, s') \<Rightarrow> (Inl e, s') | (Inr x, s') \<Rightarrow> f x s')"
  by (simp add: bind_def)

lemma visit_at_apply:
  "i < length ks \<Longrightarrow> visit_at ks i kw s = snd (ks ! i) kw s"
  by (simp add: visit_at_def bind_def lift_def item_at_def visit_kid_def)

text \<open>
  Claim C1. A reference \<open>name(args)\<close> is lowered by looking \<open>name\<close> up in the
  scope chain that is active once the name and the arguments are lowered. If the
  lookup returns a symbol whose type is a procedure type, the result is an inline
  call of the bare name with the lowered arguments as positional parameters and no
  keyword parameters; for every other lookup result, a non-procedure type or no
  symbol at all, the result is the variable \<open>name\<close> with the lowered arguments as
  its dimensions (a subscript list is never empty; were it empty, the variable
  would keep no dimensions).
\<close>

theorem visit_Part_Ref_disambiguation:
  assumes name: "snd k0 kw st = (Inr (Variable n VNone), st1)"
      and args: "snd k1 kw st1 = (Inr (VTuple ds), st2)"
  shows "visit_Part_Ref env o' [k0, k1] kw st =
           (Inr (if is_procedure (lookup (symbols st2) n)
                 then InlineCall (Variable n VNone) (VTuple ds) []
                 else Variable n (if ds = [] then VNone else VTuple ds)), st2)"
  using name args
  by (simp add: visit_Part_Ref_def bind_apply visit_at_apply lift_def ret_def)

lemma visit_foo_ref:
  "visit handlers sample_env foo_ref no_kwargs =
     visit_Part_Ref sample_env foo_ref
       [(foo_name, visit_child handlers sample_env foo_name),
        (one_subscript, visit_child handlers sample_env one_subscript)] no_kwargs"
  by (simp add: foo_ref_def handlers_def get_source_def get_label_def no_kwargs_def)

theorem visit_Part_Ref_disambiguation_witness:
  "visit handlers sample_env foo_ref no_kwargs
       (state_of [(''foo'', SymbolAttributes (ProcedureType ''foo'' True))]) =
     (Inr (InlineCall (Variable ''foo'' VNone) (VTuple [IntLiteral 1 VNone]) []),
      state_of [(''foo'', SymbolAttributes (ProcedureType ''foo'' True))]) \<and>
   visit handlers sample_env foo_ref no_kwargs (state_of [(''foo'', SymbolAttributes REAL)]) =
     (Inr (Variable ''foo'' (VTuple [IntLiteral 1 VNone])),
      state_of [(''foo'', SymbolAttributes REAL)]) \<and>
   visit handlers sample_env foo_ref no_kwargs (state_of []) =
     (Inr (Variable ''foo'' (VTuple [IntLiteral 1 VNone])), state_of [])"
proof -
  have n: "snd (foo_name, visit_child handlers sample_env foo_name) no_kwargs s =
             (Inr (Variable ''foo'' VNone), s)" for s
    by (simp add: foo_name_def handlers_def visit_Name_def ret_def)
  have a: "snd (one_subscript, visit_child handlers sample_env one_subscript) no_kwargs s =
             (Inr (VTuple [IntLiteral 1 VNone]), s)" for s
    by (simp add: one_subscript_def handlers_def visit_List_def visit_all_def visit_kid_def
        bind_apply ret_def visit_Int_Literal_Constant_def visit_literal_def lift_def raw_at_def
        item_at_def ebind_def Literal_def int_of_str_def isdigit_def is_digit_def digits_value_def
        get_source_def get_label_def no_kwargs_def)
  have p: "is_procedure
             (lookup (symbols (state_of [(''foo'', SymbolAttributes (ProcedureType ''foo'' True))]))
                ''foo'')"
    by code_simp
  have r: "\<not> is_procedure (lookup (symbols (state_of [(''foo'', SymbolAttributes REAL)])) ''foo'')"
    by code_simp
  have u: "\<not> is_procedure (lookup (symbols (state_of [])) ''foo'')"
    by code_simp
  show ?thesis
    using p r u
      visit_Part_Ref_disambiguation [OF n a, of sample_env foo_ref
        "state_of [(''foo'', SymbolAttributes (ProcedureType ''foo'' True))]"]
      visit_Part_Ref_disambiguation [OF n a, of sample_env foo_ref
        "state_of [(''foo'', SymbolAttributes REAL)]"]
      visit_Part_Ref_disambiguation [OF n a, of sample_env foo_ref "state_of []"]
    by (simp add: visit_foo_ref)
qed















lemma table_get_lower:
  "lower n = lower n' \<Longrightarrow> table_get t n = table_get t n'"
  by (simp add: table_get_def)











section \<open>Properties of the code generation\<close>

lemma map_sum_loop_filter:
  "map_sum_loop rec (filter (\<lambda>ch. \<not> is_added_zero ch) children) = map_sum_loop rec children"
  by (induction children) simp_all

lemma map_sum_loop_zeros:
  "\<forall>ch\<in>set children. is_added_zero ch \<Longrightarrow> map_sum_loop rec children = Inr ([], [])"
  by (induction children) simp_all

text \<open>
  Claim C10. When the streaming backend renders a sum, the operands that are the
  integer literal 0 or the float literal 0.0 leave no trace in the text: the sum
  prints as the sum of its other operands, and \<open>Sum(x, 0)\<close> prints as the text of
  \<open>x\<close>. A sum whose operands are all such zeros does not print as \<open>0\<close>: the
  rendering fails with an index error. This holds for every mapper \<open>rec\<close> of the
  sub-expressions.
\<close>

theorem map_sum_skips_zeros:
  "map_sum rec (filter (\<lambda>ch. \<not> is_added_zero ch) children) p = map_sum rec children p \<and>
   ((\<forall>ch\<in>set children. is_added_zero ch) \<longrightarrow> map_sum rec children p = Inl IndexError) \<and>
   (\<not> is_added_zero x \<and> get_neg_product x = None \<and> rec x PREC_SUM = Inr t \<longrightarrow>
      map_sum rec [x, IntLiteral 0 VNone] PREC_NONE = Inr t \<and>
      map_sum rec [x, FloatLiteral ''0.0'' VNone] PREC_NONE = Inr t)"
proof (intro conjI impI)
  show "map_sum rec (filter (\<lambda>ch. \<not> is_added_zero ch) children) p = map_sum rec children p"
    by (simp add: map_sum_def map_sum_loop_filter)
next
  assume "\<forall>ch\<in>set children. is_added_zero ch"
  then show "map_sum rec children p = Inl IndexError"
    by (simp add: map_sum_def map_sum_loop_zeros ebind_def item_at_def)
next
  assume h: "\<not> is_added_zero x \<and> get_neg_product x = None \<and> rec x PREC_SUM = Inr t"
  have z: "is_added_zero (IntLiteral 0 VNone)"
    by (simp add: is_added_zero_def)
  from h z show "map_sum rec [x, IntLiteral 0 VNone] PREC_NONE = Inr t"
    by (simp add: map_sum_def ebind_def item_at_def parenthesize_if_needed_def PREC_NONE_def)
next
  assume h: "\<not> is_added_zero x \<and> get_neg_product x = None \<and> rec x PREC_SUM = Inr t"
  have z: "is_added_zero (FloatLiteral ''0.0'' VNone)"
    by (simp add: is_added_zero_def)
  from h z show "map_sum rec [x, FloatLiteral ''0.0'' VNone] PREC_NONE = Inr t"
    by (simp add: map_sum_def ebind_def item_at_def parenthesize_if_needed_def PREC_NONE_def)
qed

theorem map_sum_skips_zeros_witness:
  "map_sum (\<lambda>v p. case v of Variable n d \<Rightarrow> Inr n | _ \<Rightarrow> Inl TypeError)
      [IntLiteral 0 VNone, FloatLiteral ''0.0'' VNone] PREC_NONE = Inl IndexError \<and>
   map_sum (\<lambda>v p. case v of Variable n d \<Rightarrow> Inr n | _ \<Rightarrow> Inl TypeError)
      [Variable ''x'' VNone, IntLiteral 0 VNone] PREC_NONE = Inr ''x''"
  using map_sum_skips_zeros [of "\<lambda>v p. case v of Variable n d \<Rightarrow> Inr n | _ \<Rightarrow> Inl TypeError"
      "[IntLiteral 0 VNone, FloatLiteral ''0.0'' VNone]" PREC_NONE "Variable ''x'' VNone" "''x''"]
  by (simp add: is_added_zero_def)





text \<open>
  Claim C3. The expression \<open>a - b - 1\<close> is lowered to a sum of the sum of \<open>a\<close> and
  \<open>-1 * b\<close> with \<open>-1 * 1\<close>, and the passthrough printer gives the text
  \<open>a - b - 1\<close> for it: each product with the leading factor \<open>-1\<close> is printed as a
  subtraction, not as a multiplication by \<open>-1\<close>.
\<close>

theorem minus_round_trip:
  "fst (visit handlers sample_env a_minus_b_minus_1 no_kwargs (state_of [])) =
     Inr (Sum [Sum [Variable ''a'' VNone, Product [PyInt (- 1), Variable ''b'' VNone]],
               Product [PyInt (- 1), IntLiteral 1 VNone]]) \<and>
   passthrough_str
     (Sum [Sum [Variable ''a'' VNone, Product [PyInt (- 1), Variable ''b'' VNone]],
           Product [PyInt (- 1), IntLiteral 1 VNone]]) PREC_NONE = Inr ''a - b - 1'' \<and>
   fexpr_visit \<lparr>linewidth = 90, indent = ''''\<rparr> passthrough_text
     (Sum [Sum [Variable ''a'' VNone, Product [PyInt (- 1), Variable ''b'' VNone]],
           Product [PyInt (- 1), IntLiteral 1 VNone]]) ('''', 0) = Inr (''a - b - 1'', 9)"
  by code_simp

text \<open>
  Claim C8. The streaming backend prints an assignment with the token \<open><==\<close>
  exactly when the type of the target is marked \<open>dfevar\<close> and has a non-empty
  shape, and with \<open>=\<close> otherwise; the passthrough backend prints an assignment
  that is not a pointer assignment, such as \<open>x = x + 1\<close>, with \<open>=\<close>.
\<close>

theorem assignment_tokens:
  "maxj_visit_Statement v fl o' =
     fl [v (target o'),
         if dfevar (target_type o') \<and> truthy (shape (target_type o')) then '' <== '' else '' = '',
         v (expr o'), '';'']
        (if truthy (comment o') then ''  '' @ v (comment o') else '''') \<and>
   (target o' = Variable n VNone \<and> expr o' = Sum cs \<and> \<not> ptr o' \<and>
    length n + 3 + length (str' (Sum cs)) \<le> 90 \<longrightarrow>
      fexprgen str' o' = Inr (n @ '' = '' @ str' (Sum cs)))"
  by (auto simp add: maxj_visit_Statement_def Let_def fexprgen_def fexpr_visit_Statement_def
      ebind_def append_def)

theorem assignment_tokens_witness:
  "fexprgen passthrough_text (x_plus_1 (SymbolAttributes REAL)) = Inr ''x = x + 1'' \<and>
   maxj_visit_Statement passthrough_text (\<lambda>items c. concat items @ c)
       (x_plus_1 (SymbolAttributes REAL)) = ''x = x + 1;'' \<and>
   maxj_visit_Statement passthrough_text (\<lambda>items c. concat items @ c)
       (x_plus_1 ((SymbolAttributes REAL)\<lparr>shape := VTuple [Variable ''n'' VNone], dfevar := True\<rparr>)) =
     ''x <== x + 1;''"
proof -
  have t: "passthrough_text (Sum [Variable ''x'' VNone, IntLiteral 1 VNone]) = ''x + 1''"
    by code_simp
  have x: "passthrough_text (Variable ''x'' VNone) = ''x''"
    by code_simp
  show ?thesis
    using t x
      assignment_tokens [of passthrough_text "\<lambda>items c. concat items @ c"
        "x_plus_1 (SymbolAttributes REAL)" "''x''"
        "[Variable ''x'' VNone, IntLiteral 1 VNone]" passthrough_text]
      assignment_tokens [of passthrough_text "\<lambda>items c. concat items @ c"
        "x_plus_1 ((SymbolAttributes REAL)\<lparr>shape := VTuple [Variable ''n'' VNone], dfevar := True\<rparr>)"
        "''x''" "[Variable ''x'' VNone, IntLiteral 1 VNone]" passthrough_text]
    by (simp add: x_plus_1_def SymbolAttributes_def)
qed

end
